theory Spec2Isabelle
  imports Main "HOL-Library.Word"
begin

text \<open>
  The authentication and session protocol of the booking application: the AuthContext
  of the React frontend with the pages that issue protected requests (Events, Bookings,
  Dashboard), and the gate of the Flask backend in front of a protected endpoint. The
  frontend functions are embedded as functions on an explicit client state; what the
  network answers is an argument of the function that awaits it.
\<close>

section \<open>Values exchanged over HTTP\<close>

text \<open>
  Request and response bodies are JSON. Numbers that the modelled code handles are
  identifiers, counters and timestamps, so they are integers here.
\<close>

datatype json = JNull | JBool bool | JNum int | JStr string | JObj "(string \<times> json) list"

text \<open>
  A promise returned by the axios instance \<open>api\<close> either resolves with the response
  data or rejects. A rejection carries the HTTP status and, when the body has them, the
  fields \<open>error\<close> and \<open>message\<close> of the body (read by the pages as
  \<open>error.response?.data?.message\<close>); a request that got no response at all rejects
  with \<open>NetworkError\<close>.
\<close>

datatype api_error = Http nat "string option" "string option" | NetworkError

fun response_message :: "api_error \<Rightarrow> string option" where
  "response_message (Http st kind msg) = msg"
| "response_message NetworkError = None"

text \<open>
  An authorization failure as the client receives it: status 401 with one of the
  machine-readable kinds of the error taxonomy.
\<close>

definition authorization_kinds :: "string list" where
  "authorization_kinds = [''missing_token'', ''invalid_token'', ''token_expired'', ''unknown_subject'']"

fun authorization_failure :: "api_error \<Rightarrow> bool" where
  "authorization_failure (Http st (Some kind) msg) = (st = 401 \<and> kind \<in> set authorization_kinds)"
| "authorization_failure (Http st None msg) = False"
| "authorization_failure NetworkError = False"

record request =
  http_method :: string
  url :: string
  body :: "(string \<times> json) list"
  authorization :: "string option"

section \<open>Frontend data\<close>

text \<open>\<open>interface User\<close> of the AuthContext. The field \<open>id\<close> is \<open>id_u\<close> here.\<close>

record User =
  id_u :: int
  email :: string
  name :: string

text \<open>\<open>interface Event\<close> of Events.tsx; fields that other records also have carry \<open>_e\<close>.\<close>

record Event =
  id_e :: int
  title :: string
  description :: string
  date :: string
  duration :: int
  location :: string
  price :: int
  max_participants :: int
  current_participants :: int
  facilitator_name_e :: string
  facilitator_id :: int
  type_e :: string

text \<open>\<open>interface Booking\<close> of Bookings.tsx; clashing fields carry \<open>_b\<close>.\<close>

record Booking =
  id_b :: int
  event_id :: int
  event_title_b :: string
  event_description :: string
  event_date_b :: string
  event_duration :: int
  event_location :: string
  event_price :: int
  facilitator_name_b :: string
  status_b :: string
  booking_date :: string
  event_type :: string

text \<open>\<open>interface DashboardStats\<close> and \<open>interface RecentBooking\<close> of Dashboard.tsx.\<close>

record DashboardStats =
  total_bookings :: int
  upcoming_bookings :: int
  past_bookings :: int
  total_events :: int

record RecentBooking =
  id_r :: int
  event_title_r :: string
  event_date_r :: string
  status_r :: string

datatype toast = Toast_error string | Toast_success string

section \<open>The client as a state\<close>

text \<open>
  Everything the modelled frontend code reads or writes: the browser's local storage,
  the React state of the AuthProvider (\<open>user\<close>, \<open>loading\<close>), the React state of the
  three pages, the toasts and console lines shown, and the requests handed to the
  axios instance, in order. The \<open>filter\<close> states of the pages are left out: none of
  the functions below reads or writes them.
\<close>

record client =
  localStorage :: "string \<rightharpoonup> string"
  user :: "User option"
  loading :: bool
  sent :: "request list"
  toasts :: "toast list"
  console :: "string list"
  events :: "Event list"
  events_loading :: bool
  bookingLoading :: "int option"
  bookings :: "Booking list"
  bookings_loading :: bool
  cancelLoading :: "int option"
  stats :: "DashboardStats option"
  recentBookings :: "RecentBooking list"
  dashboard_loading :: bool

text \<open>JavaScript truthiness of a \<open>string | null\<close>: null and the empty string are falsy.\<close>

fun truthy :: "string option \<Rightarrow> bool" where
  "truthy None = False"
| "truthy (Some s) = (s \<noteq> [])"

definition getItem :: "string \<Rightarrow> client \<Rightarrow> string option" where
  "getItem k c = localStorage c k"

definition setItem :: "string \<Rightarrow> string \<Rightarrow> client \<Rightarrow> client" where
  "setItem k v c = c\<lparr>localStorage := (localStorage c)(k \<mapsto> v)\<rparr>"

definition removeItem :: "string \<Rightarrow> client \<Rightarrow> client" where
  "removeItem k c = c\<lparr>localStorage := (localStorage c)(k := None)\<rparr>"

subsection \<open>The axios instance\<close>

text \<open>
  Modelled from the spec: the request interceptor of \<open>services/api\<close>, which is not among
  the sources (the AuthContext only says "let the interceptor handle it"). Every outbound
  request carries the current token if one is stored, as \<open>Authorization: Bearer <token>\<close>.
\<close>

definition attach_token :: "client \<Rightarrow> string option" where
  "attach_token c = (case getItem ''token'' c of None \<Rightarrow> None | Some t \<Rightarrow> Some (''Bearer '' @ t))"

definition api_send :: "string \<Rightarrow> string \<Rightarrow> (string \<times> json) list \<Rightarrow> client \<Rightarrow> client" where
  "api_send m u b c =
     c\<lparr>sent := sent c @ [\<lparr>http_method = m, url = u, body = b, authorization = attach_token c\<rparr>]\<rparr>"

definition api_get :: "string \<Rightarrow> client \<Rightarrow> client" where
  "api_get u c = api_send ''GET'' u [] c"

definition api_post :: "string \<Rightarrow> (string \<times> json) list \<Rightarrow> client \<Rightarrow> client" where
  "api_post u b c = api_send ''POST'' u b c"

definition api_delete :: "string \<Rightarrow> client \<Rightarrow> client" where
  "api_delete u c = api_send ''DELETE'' u [] c"

text \<open>
  Modelled from the spec: the response side of \<open>services/api\<close>, which is not among the
  sources either. The Session Client reacts to a rejection by the verifier by clearing
  its state: on receiving an authorization failure from a protected request it goes
  back to Unauthenticated, the stored token discarded and the user absent. Every other
  outcome is passed on untouched. \<open>api_receive\<close> runs when the response of a protected
  request arrives, before the function that awaits it goes on. The login and register
  endpoints are not protected (no verifier stands before them), and their outcomes
  reach \<open>login\<close> and \<open>register\<close> as they are.
\<close>

definition on_rejection :: "api_error \<Rightarrow> client \<Rightarrow> client" where
  "on_rejection e c =
     (if authorization_failure e then (removeItem ''token'' c)\<lparr>user := None\<rparr> else c)"

definition api_receive :: "api_error + 'a \<Rightarrow> client \<Rightarrow> client" where
  "api_receive r c = (case r of Inl e \<Rightarrow> on_rejection e c | Inr d \<Rightarrow> c)"

section \<open>AuthContext: the session operations\<close>

text \<open>
  Each asynchronous function is split at its \<open>await\<close>: the part that runs when it is
  called (it hands the request to axios) and the part that runs when the promise
  settles, which takes the outcome of the request. The function as a whole is the two
  in sequence.
\<close>

definition initial_client :: "(string \<rightharpoonup> string) \<Rightarrow> client" where
  "initial_client st =
     \<lparr>localStorage = st, user = None, loading = True, sent = [], toasts = [], console = [],
      events = [], events_loading = True, bookingLoading = None,
      bookings = [], bookings_loading = True, cancelLoading = None,
      stats = None, recentBookings = [], dashboard_loading = True\<rparr>"

definition fetchUser_send :: "client \<Rightarrow> client" where
  "fetchUser_send c = api_get ''/auth/me'' c"

text \<open>
  \<open>try { setUser(response.data.user) } catch { localStorage.removeItem("token") }
  finally { setLoading(false) }\<close>: the catch has no condition on the error, and the
  promise of \<open>fetchUser\<close> itself always resolves.
\<close>

definition fetchUser_settle :: "api_error + User \<Rightarrow> client \<Rightarrow> (api_error + unit) \<times> client" where
  "fetchUser_settle r c =
     (case r of
        Inr u \<Rightarrow> (Inr (), c\<lparr>user := Some u, loading := False\<rparr>)
      | Inl e \<Rightarrow> (Inr (), (removeItem ''token'' c)\<lparr>loading := False\<rparr>))"

definition fetchUser :: "api_error + User \<Rightarrow> client \<Rightarrow> (api_error + unit) \<times> client" where
  "fetchUser r c = fetchUser_settle r (api_receive r (fetchUser_send c))"

text \<open>The effect run once when the AuthProvider mounts.\<close>

definition bootstrap :: "api_error + User \<Rightarrow> client \<Rightarrow> client" where
  "bootstrap r c =
     (if truthy (getItem ''token'' c) then snd (fetchUser r c) else c\<lparr>loading := False\<rparr>)"

definition login_send :: "string \<Rightarrow> string \<Rightarrow> client \<Rightarrow> client" where
  "login_send em pw c = api_post ''/auth/login'' [(''email'', JStr em), (''password'', JStr pw)] c"

text \<open>
  \<open>login\<close> has no try/catch: a rejection of the request rejects \<open>login\<close> with the same
  error before anything is stored.
\<close>

definition login_settle :: "api_error + string \<times> User \<Rightarrow> client \<Rightarrow> (api_error + unit) \<times> client" where
  "login_settle r c =
     (case r of
        Inl e \<Rightarrow> (Inl e, c)
      | Inr (token, u) \<Rightarrow> (Inr (), (setItem ''token'' token c)\<lparr>user := Some u\<rparr>))"

definition login :: "string \<Rightarrow> string \<Rightarrow> api_error + string \<times> User \<Rightarrow> client \<Rightarrow> (api_error + unit) \<times> client" where
  "login em pw r c = login_settle r (login_send em pw c)"

definition register_send :: "string \<Rightarrow> string \<Rightarrow> string \<Rightarrow> client \<Rightarrow> client" where
  "register_send nm em pw c =
     api_post ''/auth/register'' [(''name'', JStr nm), (''email'', JStr em), (''password'', JStr pw)] c"

definition register_settle :: "api_error + string \<times> User \<Rightarrow> client \<Rightarrow> (api_error + unit) \<times> client" where
  "register_settle r c =
     (case r of
        Inl e \<Rightarrow> (Inl e, c)
      | Inr (token, u) \<Rightarrow> (Inr (), (setItem ''token'' token c)\<lparr>user := Some u\<rparr>))"


definition logout :: "client \<Rightarrow> client" where
  "logout c = (removeItem ''token'' c)\<lparr>user := None\<rparr>"

section \<open>Sequences of session operations\<close>

text \<open>
  The browser runs one handler at a time, so what overlapping asynchronous calls do is a
  sequence of events: a call hands its request to axios (\<open>Sent\<close>), and later the promise
  settles and the rest of the function runs (\<open>Settled\<close>). The number only says which
  call a settlement belongs to; the code never looks at it.
\<close>

datatype call = LoginCall string string | RegisterCall string string string | WhoamiCall

datatype reply =
    LoginReply "api_error + string \<times> User"
  | RegisterReply "api_error + string \<times> User"
  | WhoamiReply "api_error + User"

datatype event = Sent nat call | Settled nat reply | LogoutCalled

fun start_call :: "call \<Rightarrow> client \<Rightarrow> client" where
  "start_call (LoginCall em pw) c = login_send em pw c"
| "start_call (RegisterCall nm em pw) c = register_send nm em pw c"
| "start_call WhoamiCall c = fetchUser_send c"

fun settle_call :: "reply \<Rightarrow> client \<Rightarrow> client" where
  "settle_call (LoginReply r) c = snd (login_settle r c)"
| "settle_call (RegisterReply r) c = snd (register_settle r c)"
| "settle_call (WhoamiReply r) c = snd (fetchUser_settle r (api_receive r c))"

fun step :: "event \<Rightarrow> client \<Rightarrow> client" where
  "step (Sent i k) c = start_call k c"
| "step (Settled i r) c = settle_call r c"
| "step LogoutCalled c = logout c"

fun run :: "event list \<Rightarrow> client \<Rightarrow> client" where
  "run [] c = c"
| "run (e # es) c = run es (step e c)"





section \<open>The pages\<close>

definition add_toast :: "toast \<Rightarrow> client \<Rightarrow> client" where
  "add_toast t c = c\<lparr>toasts := toasts c @ [t]\<rparr>"

text \<open>\<open>error.response?.data?.message || fallback\<close>: an absent or empty message is falsy.\<close>

definition message_or :: "string \<Rightarrow> api_error \<Rightarrow> string" where
  "message_or fallback e =
     (case response_message e of
        None \<Rightarrow> fallback
      | Some m \<Rightarrow> if m \<noteq> [] then m else fallback)"

subsection \<open>Events.tsx\<close>

definition fetchEvents_send :: "client \<Rightarrow> client" where
  "fetchEvents_send c = api_get ''/events'' c"

definition fetchEvents_settle :: "api_error + Event list \<Rightarrow> client \<Rightarrow> client" where
  "fetchEvents_settle r c =
     (case r of
        Inr evs \<Rightarrow> c\<lparr>events := evs, events_loading := False\<rparr>
      | Inl e \<Rightarrow> (add_toast (Toast_error ''Failed to fetch events'') c)\<lparr>events_loading := False\<rparr>)"

definition fetchEvents :: "api_error + Event list \<Rightarrow> client \<Rightarrow> client" where
  "fetchEvents r c = fetchEvents_settle r (api_receive r (fetchEvents_send c))"

definition handleBooking_send :: "int \<Rightarrow> client \<Rightarrow> client" where
  "handleBooking_send eventId c =
     api_post ''/bookings'' [(''event_id'', JNum eventId)] (c\<lparr>bookingLoading := Some eventId\<rparr>)"

text \<open>
  After a successful POST the handler calls \<open>fetchEvents()\<close> without awaiting it; \<open>r2\<close> is
  the outcome of that second request.
\<close>

definition handleBooking_settle :: "api_error + json \<Rightarrow> api_error + Event list \<Rightarrow> client \<Rightarrow> client" where
  "handleBooking_settle r r2 c =
     (case r of
        Inr d \<Rightarrow>
          fetchEvents_settle r2
            (api_receive r2
              ((fetchEvents_send (add_toast (Toast_success ''Booking successful!'') c))\<lparr>bookingLoading := None\<rparr>))
      | Inl e \<Rightarrow> (add_toast (Toast_error (message_or ''Booking failed'' e)) c)\<lparr>bookingLoading := None\<rparr>)"

definition handleBooking :: "int \<Rightarrow> api_error + json \<Rightarrow> api_error + Event list \<Rightarrow> client \<Rightarrow> client" where
  "handleBooking eventId r r2 c =
     handleBooking_settle r r2 (api_receive r (handleBooking_send eventId c))"

text \<open>
  A JavaScript \<open>Date\<close> is a number of milliseconds, or invalid (NaN) when the string did
  not parse; \<open><\<close> on two dates compares the numbers and is false when either is NaN.
  The parser of date strings is the platform's and is a parameter \<open>parse\<close> below.
\<close>

fun date_lt :: "int option \<Rightarrow> int option \<Rightarrow> bool" where
  "date_lt (Some a) (Some b) = (a < b)"
| "date_lt a b = False"

text \<open>
  The \<open>disabled\<close> attribute of the booking button of one event card. It is computed when
  the card is rendered, and \<open>now\<close> is the clock (\<open>new Date()\<close>) at that moment.
\<close>

definition book_disabled :: "(string \<Rightarrow> int option) \<Rightarrow> int \<Rightarrow> client \<Rightarrow> Event \<Rightarrow> bool" where
  "book_disabled parse now c ev =
     (current_participants ev \<ge> max_participants ev
      \<or> bookingLoading c = Some (id_e ev)
      \<or> date_lt (parse (date ev)) (Some now))"

text \<open>
  A click on the button of a card that was rendered at \<open>rendered_at\<close>, the click coming
  at \<open>clicked_at\<close>. A disabled button does not run its \<open>onClick\<close>. The page renders again
  when its state changes, not as time passes, so the attribute is the one computed at
  \<open>rendered_at\<close>; neither the button nor \<open>handleBooking\<close> reads the clock at the click.
\<close>

definition click_book :: "(string \<Rightarrow> int option) \<Rightarrow> int \<Rightarrow> int \<Rightarrow> Event \<Rightarrow> api_error + json \<Rightarrow> api_error + Event list \<Rightarrow> client \<Rightarrow> client" where
  "click_book parse rendered_at clicked_at ev r r2 c =
     (if book_disabled parse rendered_at c ev then c else handleBooking (id_e ev) r r2 c)"

subsection \<open>Bookings.tsx\<close>

definition fetchBookings_send :: "client \<Rightarrow> client" where
  "fetchBookings_send c = api_get ''/bookings'' c"

definition fetchBookings_settle :: "api_error + Booking list \<Rightarrow> client \<Rightarrow> client" where
  "fetchBookings_settle r c =
     (case r of
        Inr bs \<Rightarrow> c\<lparr>bookings := bs, bookings_loading := False\<rparr>
      | Inl e \<Rightarrow> (add_toast (Toast_error ''Failed to fetch bookings'') c)\<lparr>bookings_loading := False\<rparr>)"

definition fetchBookings :: "api_error + Booking list \<Rightarrow> client \<Rightarrow> client" where
  "fetchBookings r c = fetchBookings_settle r (api_receive r (fetchBookings_send c))"

text \<open>
  \<open>confirmed\<close> is the answer of \<open>window.confirm\<close>. \<open>to_string\<close> is the string that the
  template literal gives for the number \<open>bookingId\<close> (the platform's conversion, which
  is decimal digits for the integers below \<open>1e21\<close> and exponent form beyond).
\<close>

definition handleCancelBooking :: "(int \<Rightarrow> string) \<Rightarrow> int \<Rightarrow> bool \<Rightarrow> api_error + json \<Rightarrow> api_error + Booking list \<Rightarrow> client \<Rightarrow> client" where
  "handleCancelBooking to_string bookingId confirmed r r2 c =
     (if \<not> confirmed then c
      else
        let c1 = api_receive r
                   (api_delete (''/bookings/'' @ to_string bookingId) (c\<lparr>cancelLoading := Some bookingId\<rparr>))
        in (case r of
              Inr d \<Rightarrow>
                fetchBookings_settle r2
                  (api_receive r2
                    ((fetchBookings_send (add_toast (Toast_success ''Booking cancelled successfully'') c1))\<lparr>cancelLoading := None\<rparr>))
            | Inl e \<Rightarrow>
                (add_toast (Toast_error (message_or ''Failed to cancel booking'' e)) c1)\<lparr>cancelLoading := None\<rparr>))"

subsection \<open>Dashboard.tsx\<close>

text \<open>
  \<open>Promise.all\<close> of the two requests: both are sent; the state is set when both resolve,
  and a rejection of either goes to the catch, which writes to the console.
\<close>

definition fetchDashboardData :: "api_error + DashboardStats \<Rightarrow> api_error + RecentBooking list \<Rightarrow> client \<Rightarrow> client" where
  "fetchDashboardData r1 r2 c =
     (let c1 = api_receive r2 (api_receive r1
                 (api_get ''/bookings?limit=5'' (api_get ''/dashboard/stats'' c)))
      in (case (r1, r2) of
            (Inr s, Inr bs) \<Rightarrow> c1\<lparr>stats := Some s, recentBookings := bs, dashboard_loading := False\<rparr>
          | _ \<Rightarrow> c1\<lparr>console := console c1 @ [''Error fetching dashboard data:''], dashboard_loading := False\<rparr>))"

section \<open>Backend: the protected endpoints\<close>

text \<open>
  The token of the data model: subject, issue and expiry times (seconds) and the
  signature bytes. The Authorization header of a request is modelled by the token it
  carries, if any.
\<close>

type_synonym bytes = "8 word list"

record token =
  subject :: int
  issued_at :: nat
  expires_at :: nat
  signature :: bytes

datatype verification_error = MissingToken | InvalidToken | ExpiredToken | UnknownSubject

text \<open>
  What is outside the sources and taken as given: the keyed signing function of the JWT
  library (\<open>mac\<close>, from the secret and the signed fields to the signature bytes) and the
  text the library gives for an error (\<open>str_error\<close>, handed to the loaders).
\<close>

record jwt_library =
  mac :: "string \<Rightarrow> int \<times> nat \<times> nat \<Rightarrow> bytes"
  str_error :: "verification_error \<Rightarrow> string"

definition signed_fields :: "token \<Rightarrow> int \<times> nat \<times> nat" where
  "signed_fields t = (subject t, issued_at t, expires_at t)"

text \<open>
  Modelled from the spec: the verification that \<open>jwt_required\<close> performs. It is done by
  the JWT library as configured in \<open>backend/app.py\<close>, neither of which is among the
  sources. The Authorization value of the request is given by the token it carries,
  \<open>None\<close> when it is absent or malformed. The steps are those of the Token Verifier in
  their order: no usable Authorization value, then the signature, then the expiry, then
  the existence of the subject (\<open>known\<close> is the lookup of an identity by its id), else
  the subject.
\<close>

definition verify :: "jwt_library \<Rightarrow> string \<Rightarrow> nat \<Rightarrow> (int \<Rightarrow> bool) \<Rightarrow> token option \<Rightarrow> verification_error + int" where
  "verify lib secret now known auth =
     (case auth of
        None \<Rightarrow> Inl MissingToken
      | Some t \<Rightarrow>
          if signature t \<noteq> mac lib secret (signed_fields t) then Inl InvalidToken
          else if now > expires_at t then Inl ExpiredToken
          else if \<not> known (subject t) then Inl UnknownSubject
          else Inr (subject t))"

type_synonym response = "(string \<times> json) list \<times> nat"

definition jwt_payload :: "token \<Rightarrow> (string \<times> json) list" where
  "jwt_payload t =
     [(''sub'', JNum (subject t)), (''iat'', JNum (int (issued_at t))), (''exp'', JNum (int (expires_at t)))]"

text \<open>Python's \<open>dict.get\<close>: the value, or \<open>None\<close> when the key is missing.\<close>

definition dict_get :: "(string \<times> json) list \<Rightarrow> string \<Rightarrow> json" where
  "dict_get d k = (case map_of d k of None \<Rightarrow> JNull | Some v \<Rightarrow> v)"

text \<open>The three loaders registered on the JWT manager (their \<open>print\<close> lines left out).\<close>

definition expired_token_callback :: "(string \<times> json) list \<Rightarrow> (string \<times> json) list \<Rightarrow> response" where
  "expired_token_callback jwt_header payload =
     ([(''message'', JStr ''Token has expired''),
       (''error'', JStr ''token_expired''),
       (''expired_at'', dict_get payload ''exp'')], 401)"

definition invalid_token_callback :: "string \<Rightarrow> response" where
  "invalid_token_callback error =
     ([(''message'', JStr ''Invalid token''),
       (''error'', JStr ''invalid_token''),
       (''details'', JStr error)], 401)"

definition missing_token_callback :: "string \<Rightarrow> response" where
  "missing_token_callback error =
     ([(''message'', JStr ''Authorization token is required''),
       (''error'', JStr ''missing_token''),
       (''details'', JStr ''Authorization header with Bearer token is required'')], 401)"

text \<open>
  Modelled from the spec: the answer to a token whose subject no longer resolves. The
  sources show no loader for it; it is an authorization failure like the other three,
  with the kind \<open>unknown_subject\<close> and a human-readable message.
\<close>

definition unknown_subject_callback :: "string \<Rightarrow> response" where
  "unknown_subject_callback error =
     ([(''message'', JStr error),
       (''error'', JStr ''unknown_subject'')], 401)"

text \<open>
  Modelled from the spec: the decorator \<open>@jwt_required()\<close> of the JWT library, of which
  the sources show the use and three loaders only. The wrapped handler runs with the
  identity of the token when verification succeeds; on each of the four failures the
  answer is the authorization failure of its kind and the handler does not run.
  \<open>jwt_header\<close> stands for the header of the token, which the loader of an expired token
  receives and does not read.
\<close>

definition jwt_header :: "(string \<times> json) list" where
  "jwt_header = [(''typ'', JStr ''JWT''), (''alg'', JStr ''HS256'')]"

definition jwt_required :: "jwt_library \<Rightarrow> string \<Rightarrow> nat \<Rightarrow> (int \<Rightarrow> bool) \<Rightarrow> token option \<Rightarrow> (int \<Rightarrow> response) \<Rightarrow> response" where
  "jwt_required lib secret now known auth handler =
     (case verify lib secret now known auth of
        Inr identity \<Rightarrow> handler identity
      | Inl MissingToken \<Rightarrow> missing_token_callback (str_error lib MissingToken)
      | Inl InvalidToken \<Rightarrow> invalid_token_callback (str_error lib InvalidToken)
      | Inl ExpiredToken \<Rightarrow>
          expired_token_callback jwt_header (case auth of None \<Rightarrow> [] | Some t \<Rightarrow> jwt_payload t)
      | Inl UnknownSubject \<Rightarrow> unknown_subject_callback (str_error lib UnknownSubject))"

text \<open>
  The handler of \<open>/api/jwt-test\<close>. \<open>query_get\<close> is \<open>User.query.get\<close>: the row, \<open>None\<close>
  when there is none, or an exception (its text on the left), which the handler's
  \<open>except\<close> turns into a 500. The columns read are those of the frontend's \<open>User\<close>.
\<close>

definition jwt_test :: "(int \<Rightarrow> string + User option) \<Rightarrow> int \<Rightarrow> response" where
  "jwt_test query_get user_id =
     (case query_get user_id of
        Inr u \<Rightarrow>
          ([(''message'', JStr ''JWT token is valid''),
            (''user_id'', JNum user_id),
            (''user'', (case u of
                          Some row \<Rightarrow> JObj [(''id'', JNum (id_u row)), (''name'', JStr (name row)), (''email'', JStr (email row))]
                        | None \<Rightarrow> JNull)),
            (''token_valid'', JBool True)], 200)
      | Inl e \<Rightarrow>
          ([(''message'', JStr ''JWT token test failed''),
            (''error'', JStr e),
            (''token_valid'', JBool False)], 500))"

text \<open>
  Modelled from the spec: the existence lookup of the verifier, on the table the
  handler reads. An identity exists when the lookup gives a row.
\<close>

definition identity_exists :: "(int \<Rightarrow> string + User option) \<Rightarrow> int \<Rightarrow> bool" where
  "identity_exists query_get i = (case query_get i of Inr (Some row) \<Rightarrow> True | _ \<Rightarrow> False)"

definition jwt_test_endpoint :: "jwt_library \<Rightarrow> string \<Rightarrow> nat \<Rightarrow> (int \<Rightarrow> string + User option) \<Rightarrow> token option \<Rightarrow> response" where
  "jwt_test_endpoint lib secret now query_get auth =
     jwt_required lib secret now (identity_exists query_get) auth (jwt_test query_get)"

section \<open>The session of the data model\<close>

text \<open>
  The client-side session is the pair of the token stored under the fixed key and the
  user held by the AuthProvider.
\<close>

definition session :: "client \<Rightarrow> string option \<times> User option" where
  "session c = (getItem ''token'' c, user c)"


section \<open>Concrete inputs\<close>

definition alice :: User where
  "alice = \<lparr>id_u = 1, email = ''a@x.com'', name = ''A''\<rparr>"

definition bob :: User where
  "bob = \<lparr>id_u = 2, email = ''b@x.com'', name = ''B''\<rparr>"

text \<open>A client with a stored token and a user, as after a successful login.\<close>

definition signed_in :: client where
  "signed_in = (initial_client [''token'' \<mapsto> ''abc''])\<lparr>user := Some alice, loading := False\<rparr>"

text \<open>The rejection axios gives for the response of \<open>expired_token_callback\<close>.\<close>

definition expired :: api_error where
  "expired = Http 401 (Some ''token_expired'') (Some ''Token has expired'')"

definition yoga :: Event where
  "yoga = \<lparr>id_e = 1, title = ''Morning Meditation Session'', description = ''Start your day'',
     date = ''2024-01-15T09:00:00'', duration = 60, location = ''Zen Studio, Downtown'',
     price = 25, max_participants = 15, current_participants = 5,
     facilitator_name_e = ''Dr. Sarah Johnson'', facilitator_id = 1, type_e = ''session''\<rparr>"

text \<open>A signing function that gives the same three bytes for every input, and a token it signs.\<close>

definition toy_library :: jwt_library where
  "toy_library = \<lparr>mac = (\<lambda>k f. [1, 2, 3]), str_error = (\<lambda>e. ''error'')\<rparr>"

definition old_token :: token where
  "old_token = \<lparr>subject = 7, issued_at = 0, expires_at = 10, signature = [1, 2, 3]\<rparr>"

section \<open>Properties of the session operations\<close>

lemmas storage_defs = getItem_def setItem_def removeItem_def

lemmas api_defs = api_send_def api_get_def api_post_def api_delete_def attach_token_def

lemma session_update_other [simp]:
  "session (c\<lparr>toasts := ts\<rparr>) = session c"
  "session (c\<lparr>console := cs\<rparr>) = session c"
  "session (c\<lparr>sent := qs\<rparr>) = session c"
  "session (c\<lparr>events := evs\<rparr>) = session c"
  "session (c\<lparr>events_loading := b\<rparr>) = session c"
  "session (c\<lparr>bookingLoading := bl\<rparr>) = session c"
  "session (c\<lparr>bookings := bs\<rparr>) = session c"
  "session (c\<lparr>bookings_loading := b\<rparr>) = session c"
  "session (c\<lparr>cancelLoading := cl\<rparr>) = session c"
  "session (c\<lparr>stats := s\<rparr>) = session c"
  "session (c\<lparr>recentBookings := rb\<rparr>) = session c"
  "session (c\<lparr>dashboard_loading := b\<rparr>) = session c"
  by (simp_all add: session_def getItem_def)

lemma session_api [simp]:
  "session (api_send m u b c) = session c"
  "session (api_get u c) = session c"
  "session (api_post u b c) = session c"
  "session (api_delete u c) = session c"
  "session (add_toast t c) = session c"
  by (simp_all add: api_get_def api_post_def api_delete_def api_send_def add_toast_def)

lemma session_on_rejection:
  "session (on_rejection e c) = (if authorization_failure e then (None, None) else session c)"
  by (simp add: on_rejection_def session_def getItem_def removeItem_def)

lemma session_api_receive:
  "session (api_receive r c) =
     (case r of
        Inl e \<Rightarrow> if authorization_failure e then (None, None) else session c
      | Inr d \<Rightarrow> session c)"
  by (cases r) (simp_all add: api_receive_def session_on_rejection)

lemma api_receive_keeps_cleared:
  "session c = (None, None) \<Longrightarrow> session (api_receive r c) = (None, None)"
  by (cases r) (simp_all add: session_api_receive)

lemma api_receive_Inr [simp]: "api_receive (Inr d) c = c"
  by (simp add: api_receive_def)

lemma api_receive_other [simp]:
  "sent (api_receive r c) = sent c"
  "toasts (api_receive r c) = toasts c"
  "console (api_receive r c) = console c"
  "loading (api_receive r c) = loading c"
  by (cases r; simp add: api_receive_def on_rejection_def removeItem_def)+

subsection \<open>login and logout\<close>

text \<open>
  Claim C7. \<open>login\<close> on success stores the returned token under \<open>"token"\<close> and the
  returned user, so that the session holds both; on a failed request it rejects with the
  error it received (the server's message included), and local storage, \<open>user\<close> and
  \<open>loading\<close> are what they were: nothing is written, and a session without token and
  user stays so.
\<close>

theorem login_outcome:
  "fst (login em pw (Inr (tok, u)) c) = Inr ()
   \<and> session (snd (login em pw (Inr (tok, u)) c)) = (Some tok, Some u)
   \<and> fst (login em pw (Inl e) c) = Inl e
   \<and> localStorage (snd (login em pw (Inl e) c)) = localStorage c
   \<and> user (snd (login em pw (Inl e) c)) = user c
   \<and> loading (snd (login em pw (Inl e) c)) = loading c
   \<and> session (snd (login em pw (Inl e) c)) = session c"
proof -
  have ok: "login em pw (Inr (tok, u)) c =
      (Inr (), (setItem ''token'' tok (login_send em pw c))\<lparr>user := Some u\<rparr>)"
    by (simp add: login_def login_settle_def)
  have ko: "login em pw (Inl e) c = (Inl e, login_send em pw c)"
    by (simp add: login_def login_settle_def)
  have sent_only: "localStorage (login_send em pw c) = localStorage c
      \<and> user (login_send em pw c) = user c \<and> loading (login_send em pw c) = loading c"
    by (simp add: login_send_def api_defs)
  have unchanged: "session (login_send em pw c) = session c"
    by (simp add: login_send_def)
  from ok have "session (snd (login em pw (Inr (tok, u)) c)) = (Some tok, Some u)"
    by (simp add: session_def storage_defs)
  with ok ko sent_only unchanged show ?thesis by simp
qed

text \<open>
  Claim C8. \<open>logout\<close> removes the stored token and clears \<open>user\<close> whatever the state was,
  and hands no request to axios. A request sent next carries no Authorization header,
  and \<open>user\<close> reads as absent.
\<close>

theorem logout_outcome:
  "session (logout c) = (None, None)
   \<and> sent (logout c) = sent c
   \<and> attach_token (logout c) = None
   \<and> authorization (last (sent (api_send m u b (logout c)))) = None"
  by (simp add: logout_def session_def storage_defs api_defs)

subsection \<open>bootstrap\<close>

lemma bootstrap_no_token:
  "\<not> truthy (localStorage c ''token'') \<Longrightarrow> bootstrap r c = c\<lparr>loading := False\<rparr>"
  by (simp add: bootstrap_def getItem_def)

lemma bootstrap_token:
  "truthy (localStorage c ''token'') \<Longrightarrow>
   bootstrap r c = snd (fetchUser_settle r (api_receive r (api_get ''/auth/me'' c)))"
  by (simp add: bootstrap_def getItem_def fetchUser_def fetchUser_send_def)

lemma fetchUser_settle_error:
  "snd (fetchUser_settle (Inl e) c) = (removeItem ''token'' c)\<lparr>loading := False\<rparr>"
  by (simp add: fetchUser_settle_def)

text \<open>
  Claim C3. At application start: with no token stored, bootstrap sends nothing and the
  session settles without token and user; with a token stored (a non-empty string:
  the effect tests \<open>if (token)\<close>), exactly one request is sent, \<open>GET /auth/me\<close>, and the
  session settles with the token and the returned user when it succeeds, and without
  token and user when it fails. In each case \<open>loading\<close> ends. A stored empty string is
  treated as no token: nothing is sent and \<open>user\<close> stays absent.
\<close>

theorem bootstrap_outcome:
  "(st ''token'' = None \<longrightarrow>
      sent (bootstrap r (initial_client st)) = []
      \<and> session (bootstrap r (initial_client st)) = (None, None)
      \<and> \<not> loading (bootstrap r (initial_client st)))
   \<and> (st ''token'' = Some t \<and> t \<noteq> [] \<longrightarrow>
      map (\<lambda>q. (http_method q, url q)) (sent (bootstrap r (initial_client st))) = [(''GET'', ''/auth/me'')]
      \<and> \<not> loading (bootstrap r (initial_client st))
      \<and> (case r of
            Inr u \<Rightarrow> session (bootstrap r (initial_client st)) = (Some t, Some u)
          | Inl e \<Rightarrow> session (bootstrap r (initial_client st)) = (None, None)))
   \<and> (st ''token'' = Some [] \<longrightarrow>
      sent (bootstrap r (initial_client st)) = []
      \<and> user (bootstrap r (initial_client st)) = None
      \<and> \<not> loading (bootstrap r (initial_client st)))"
proof (intro conjI impI)
  assume none: "st ''token'' = None"
  then have b: "bootstrap r (initial_client st) = (initial_client st)\<lparr>loading := False\<rparr>"
    by (simp add: bootstrap_no_token initial_client_def)
  show "sent (bootstrap r (initial_client st)) = []"
    unfolding b by (simp add: initial_client_def)
  show "session (bootstrap r (initial_client st)) = (None, None)"
    using none unfolding b by (simp add: initial_client_def session_def getItem_def)
  show "\<not> loading (bootstrap r (initial_client st))"
    by (simp add: b)
next
  assume some: "st ''token'' = Some t \<and> t \<noteq> []"
  then have b: "bootstrap r (initial_client st) =
      snd (fetchUser_settle r (api_receive r (api_get ''/auth/me'' (initial_client st))))"
    by (simp add: bootstrap_token initial_client_def)
  show "map (\<lambda>q. (http_method q, url q)) (sent (bootstrap r (initial_client st))) = [(''GET'', ''/auth/me'')]"
    unfolding b
    by (cases r) (simp_all add: fetchUser_settle_def initial_client_def api_defs removeItem_def)
  show "\<not> loading (bootstrap r (initial_client st))"
    unfolding b by (cases r) (simp_all add: fetchUser_settle_def)
  show "case r of
          Inr u \<Rightarrow> session (bootstrap r (initial_client st)) = (Some t, Some u)
        | Inl e \<Rightarrow> session (bootstrap r (initial_client st)) = (None, None)"
    using some unfolding b
    by (cases r)
      (simp_all add: fetchUser_settle_def initial_client_def api_defs api_receive_def
        on_rejection_def session_def storage_defs)
next
  assume empty: "st ''token'' = Some []"
  then have b: "bootstrap r (initial_client st) = (initial_client st)\<lparr>loading := False\<rparr>"
    by (simp add: bootstrap_no_token initial_client_def)
  show "sent (bootstrap r (initial_client st)) = []"
    unfolding b by (simp add: initial_client_def)
  show "user (bootstrap r (initial_client st)) = None"
    unfolding b by (simp add: initial_client_def)
  show "\<not> loading (bootstrap r (initial_client st))"
    by (simp add: b)
qed

theorem bootstrap_outcome_witness:
  "sent (bootstrap (Inr alice) (initial_client Map.empty)) = []
   \<and> session (bootstrap (Inr alice) (initial_client Map.empty)) = (None, None)
   \<and> session (bootstrap (Inr alice) (initial_client [''token'' \<mapsto> ''abc''])) = (Some ''abc'', Some alice)
   \<and> session (bootstrap (Inl expired) (initial_client [''token'' \<mapsto> ''abc''])) = (None, None)
   \<and> sent (bootstrap (Inr alice) (initial_client [''token'' \<mapsto> []])) = []"
  using bootstrap_outcome [of Map.empty "Inr alice" "''abc''"]
    bootstrap_outcome [of "[''token'' \<mapsto> ''abc'']" "Inr alice" "''abc''"]
    bootstrap_outcome [of "[''token'' \<mapsto> ''abc'']" "Inl expired" "''abc''"]
    bootstrap_outcome [of "[''token'' \<mapsto> []]" "Inr alice" "''abc''"]
  by simp

text \<open>
  Claim C4, as the code has it. During bootstrap the catch of \<open>fetchUser\<close> does not look
  at the error: a transport or unanticipated error discards the stored token exactly as
  a verification failure does. The error is swallowed (\<open>fetchUser\<close> resolves, no toast,
  no console line), \<open>user\<close> stays absent and \<open>loading\<close> ends.
\<close>

theorem bootstrap_any_error:
  assumes "st ''token'' = Some t" and "t \<noteq> []"
  shows "fst (fetchUser (Inl e) (initial_client st)) = Inr ()
    \<and> session (bootstrap (Inl e) (initial_client st)) = (None, None)
    \<and> \<not> loading (bootstrap (Inl e) (initial_client st))
    \<and> toasts (bootstrap (Inl e) (initial_client st)) = []
    \<and> console (bootstrap (Inl e) (initial_client st)) = []"
proof -
  have b: "bootstrap (Inl e) (initial_client st) =
      (removeItem ''token''
        (api_receive (Inl e :: api_error + User) (api_get ''/auth/me'' (initial_client st))))\<lparr>loading := False\<rparr>"
    using assms by (simp add: bootstrap_token initial_client_def fetchUser_settle_error)
  have "fst (fetchUser (Inl e) (initial_client st)) = Inr ()"
    by (simp add: fetchUser_def fetchUser_settle_def)
  moreover have "session (bootstrap (Inl e) (initial_client st)) = (None, None)"
    unfolding b
    by (simp add: session_def storage_defs api_defs api_receive_def on_rejection_def
        initial_client_def)
  moreover have "toasts (bootstrap (Inl e) (initial_client st)) = []"
    "console (bootstrap (Inl e) (initial_client st)) = []"
    unfolding b by (simp_all add: removeItem_def api_defs initial_client_def)
  ultimately show ?thesis by (simp add: b)
qed

theorem bootstrap_any_error_witness:
  "session (bootstrap (Inl NetworkError) (initial_client [''token'' \<mapsto> ''abc''])) = (None, None)
   \<and> session (bootstrap (Inl (Http 500 None None)) (initial_client [''token'' \<mapsto> ''abc''])) = (None, None)"
  using bootstrap_any_error [of "[''token'' \<mapsto> ''abc'']" "''abc''" NetworkError]
    bootstrap_any_error [of "[''token'' \<mapsto> ''abc'']" "''abc''" "Http 500 None None"]
  by simp

text \<open>
  Claim C4 as stated fails: a network failure is no authorization failure, the token
  \<open>abc\<close> is stored before bootstrap, and it is gone afterwards.
\<close>

theorem bootstrap_transport_error_counterexample:
  "\<not> authorization_failure NetworkError
   \<and> localStorage (initial_client [''token'' \<mapsto> ''abc'']) ''token'' = Some ''abc''
   \<and> localStorage (bootstrap (Inl NetworkError) (initial_client [''token'' \<mapsto> ''abc''])) ''token'' = None"
  by (simp add: bootstrap_def fetchUser_def fetchUser_send_def fetchUser_settle_def
      api_receive_def on_rejection_def initial_client_def storage_defs api_defs)

subsection \<open>The invariant of completed operations\<close>









subsection \<open>Overlapping calls\<close>


lemma run_snoc: "run (es @ [e]) c = step e (run es c)"
  by (induction es arbitrary: c) simp_all

lemma session_start_call: "session (start_call k c) = session c"
  by (cases k) (simp_all add: login_send_def register_send_def fetchUser_send_def)

text \<open>
  Claim C2, as the code has it. No settlement is ever ignored: the code keeps no
  generation and applies every response when it arrives. After any sequence of events,
  a successful login or register response that arrives last sets the token and the user
  it carries, a successful whoami response that arrives last sets the user it carries,
  and a logout that comes last leaves neither; sending a request changes nothing in the
  session. So the session is the one written by the event that came last, whether or
  not its call was started before the others.
\<close>

theorem last_arrival_wins:
  "session (run (es @ [Settled i (LoginReply (Inr (tok, u)))]) c) = (Some tok, Some u)
   \<and> session (run (es @ [Settled i (RegisterReply (Inr (tok, u)))]) c) = (Some tok, Some u)
   \<and> user (run (es @ [Settled i (WhoamiReply (Inr u))]) c) = Some u
   \<and> session (run (es @ [LogoutCalled]) c) = (None, None)
   \<and> session (run (es @ [Sent i k]) c) = session (run es c)"
proof -
  have settled: "session (run (es @ [Settled i (LoginReply (Inr (tok, u)))]) c) = (Some tok, Some u)"
    "session (run (es @ [Settled i (RegisterReply (Inr (tok, u)))]) c) = (Some tok, Some u)"
    "user (run (es @ [Settled i (WhoamiReply (Inr u))]) c) = Some u"
    by (simp_all add: run_snoc login_settle_def register_settle_def fetchUser_settle_def
        api_receive_def session_def storage_defs)
  have logged_out: "session (run (es @ [LogoutCalled]) c) = (None, None)"
    by (simp add: run_snoc logout_def session_def storage_defs)
  have "session (run (es @ [Sent i k]) c) = session (run es c)"
    by (simp add: run_snoc session_start_call)
  with settled logged_out show ?thesis by simp
qed

text \<open>
  Claim C2 as stated fails twice. The application starts with a stored token and sends
  its whoami request, \<open>logout\<close> is called, and the successful response arrives: \<open>user\<close>
  is set after the logout, with no token stored. Two logins are started; the second
  settles first and the first, started under the older state, settles last and
  overwrites it.
\<close>

theorem stale_response_counterexample:
  "session (run [Sent 0 WhoamiCall, LogoutCalled, Settled 0 (WhoamiReply (Inr alice))]
              (initial_client [''token'' \<mapsto> ''abc'']))
     = (None, Some alice)
   \<and> session (run [Sent 0 (LoginCall ''a@x.com'' ''secret1''), Sent 1 (LoginCall ''b@x.com'' ''secret2''),
                   Settled 1 (LoginReply (Inr (''tokB'', bob))),
                   Settled 0 (LoginReply (Inr (''tokA'', alice)))] (initial_client Map.empty))
     = (Some ''tokA'', Some alice)"
  by (simp add: initial_client_def fetchUser_send_def fetchUser_settle_def api_receive_def
      login_send_def login_settle_def logout_def session_def storage_defs api_defs)

section \<open>Properties of the pages\<close>

lemma session_fetchEvents_settle [simp]: "session (fetchEvents_settle r c) = session c"
  by (cases r) (simp_all add: fetchEvents_settle_def)

lemma session_fetchBookings_settle [simp]: "session (fetchBookings_settle r c) = session c"
  by (cases r) (simp_all add: fetchBookings_settle_def)

text \<open>
  Claim C1. When the response to a protected request of a page is an authorization
  failure, the session is cleared: the stored token is discarded and \<open>user\<close> is absent.
  This holds for the events list, the bookings list, the creation and the cancellation
  of a booking (and the list each of them fetches again after a success), and for
  either of the two requests of the dashboard, whatever the other one gives.
\<close>

theorem authorization_failure_clears_session:
  assumes "authorization_failure e"
  shows "session (fetchEvents (Inl e) c) = (None, None)
    \<and> session (fetchBookings (Inl e) c) = (None, None)
    \<and> session (handleBooking i (Inl e) re c) = (None, None)
    \<and> session (handleBooking i (Inr d) (Inl e) c) = (None, None)
    \<and> session (handleCancelBooking to_string j True (Inl e) rb c) = (None, None)
    \<and> session (handleCancelBooking to_string j True (Inr d) (Inl e) c) = (None, None)
    \<and> session (fetchDashboardData (Inl e) r2 c) = (None, None)
    \<and> session (fetchDashboardData r1 (Inl e) c) = (None, None)"
proof -
  have cleared: "session (api_receive (Inl e) x) = (None, None)" for x :: client
    using assms by (simp add: session_api_receive)
  have events: "session (fetchEvents (Inl e) c) = (None, None)"
    by (simp add: fetchEvents_def cleared)
  have bookings: "session (fetchBookings (Inl e) c) = (None, None)"
    by (simp add: fetchBookings_def cleared)
  have book: "session (handleBooking i (Inl e) re c) = (None, None)"
    by (simp add: handleBooking_def handleBooking_settle_def cleared)
  have book_again: "session (handleBooking i (Inr d) (Inl e) c) = (None, None)"
    by (simp add: handleBooking_def handleBooking_settle_def cleared)
  have cancel: "session (handleCancelBooking to_string j True (Inl e) rb c) = (None, None)"
    by (simp add: handleCancelBooking_def Let_def cleared)
  have cancel_again: "session (handleCancelBooking to_string j True (Inr d) (Inl e) c) = (None, None)"
    by (simp add: handleCancelBooking_def Let_def cleared)
  have first: "session (fetchDashboardData (Inl e) r2 c) = (None, None)"
    by (cases r2) (simp_all add: fetchDashboardData_def Let_def cleared api_receive_keeps_cleared)
  have second: "session (fetchDashboardData r1 (Inl e) c) = (None, None)"
    by (cases r1) (simp_all add: fetchDashboardData_def Let_def cleared)
  from events bookings book book_again cancel cancel_again first second
  show ?thesis by simp
qed

theorem authorization_failure_clears_session_witness:
  "authorization_failure expired
   \<and> session signed_in = (Some ''abc'', Some alice)
   \<and> session (fetchBookings (Inl expired) signed_in) = (None, None)
   \<and> session (fetchDashboardData (Inl expired) (Inr []) signed_in) = (None, None)"
proof -
  have failure: "authorization_failure expired"
    by (simp add: expired_def authorization_kinds_def)
  have before: "session signed_in = (Some ''abc'', Some alice)"
    by (simp add: signed_in_def initial_client_def session_def getItem_def)
  from failure before show ?thesis
    using authorization_failure_clears_session [OF failure, where c = signed_in and ?r2.0 = "Inr []"]
    by simp
qed

subsection \<open>The booking button\<close>

lemma sent_fetchEvents_settle: "sent (fetchEvents_settle r c) = sent c"
  by (cases r) (simp_all add: fetchEvents_settle_def add_toast_def)

lemma sent_handleBooking:
  "sent (handleBooking i r r2 c) =
     sent c @ \<lparr>http_method = ''POST'', url = ''/bookings'', body = [(''event_id'', JNum i)],
               authorization = attach_token c\<rparr>
       # (case r of Inl e \<Rightarrow> []
          | Inr d \<Rightarrow> [\<lparr>http_method = ''GET'', url = ''/events'', body = [], authorization = attach_token c\<rparr>])"
  by (cases r)
    (simp_all add: handleBooking_def handleBooking_settle_def handleBooking_send_def
      sent_fetchEvents_settle fetchEvents_send_def api_defs add_toast_def getItem_def)

text \<open>
  Claim C10, as the code has it. \<open>handleBooking\<close> is called from the booking button only,
  and a click on the button of an event sends something only when, at the rendering of
  the card, the event was neither full (\<open>current_participants >= max_participants\<close>) nor
  past (its date earlier than the clock at the rendering); the first request sent is
  then the POST to \<open>/bookings\<close> for this event. This holds whenever the click comes:
  nothing is checked at the click.
\<close>

theorem booking_request_only_when_open:
  "sent (click_book parse rendered_at clicked_at ev r r2 c) \<noteq> sent c \<longrightarrow>
     current_participants ev < max_participants ev
     \<and> \<not> date_lt (parse (date ev)) (Some rendered_at)
     \<and> hd (drop (length (sent c)) (sent (click_book parse rendered_at clicked_at ev r r2 c)))
         = \<lparr>http_method = ''POST'', url = ''/bookings'', body = [(''event_id'', JNum (id_e ev))],
             authorization = attach_token c\<rparr>"
proof (cases "book_disabled parse rendered_at c ev")
  case True
  then show ?thesis by (simp add: click_book_def)
next
  case False
  then have open_ev: "current_participants ev < max_participants ev"
      "\<not> date_lt (parse (date ev)) (Some rendered_at)"
    by (auto simp: book_disabled_def)
  from False have "click_book parse rendered_at clicked_at ev r r2 c = handleBooking (id_e ev) r r2 c"
    by (simp add: click_book_def)
  with open_ev show ?thesis by (simp add: sent_handleBooking)
qed

theorem booking_request_only_when_open_witness:
  "sent (click_book (\<lambda>s. Some 1705309200000) 1700000000000 1700000001000 yoga
       (Inl NetworkError) (Inl NetworkError) (initial_client Map.empty)) \<noteq> sent (initial_client Map.empty)
   \<and> current_participants yoga < max_participants yoga
   \<and> sent (click_book (\<lambda>s. Some 1705309200000) 1800000000000 1800000001000 yoga
       (Inl NetworkError) (Inl NetworkError) (initial_client Map.empty)) = sent (initial_client Map.empty)"
proof -
  have "sent (click_book (\<lambda>s. Some 1705309200000) 1700000000000 1700000001000 yoga
       (Inl NetworkError) (Inl NetworkError) (initial_client Map.empty)) \<noteq> sent (initial_client Map.empty)"
    by (simp add: click_book_def book_disabled_def yoga_def initial_client_def sent_handleBooking)
  moreover have "sent (click_book (\<lambda>s. Some 1705309200000) 1800000000000 1800000001000 yoga
       (Inl NetworkError) (Inl NetworkError) (initial_client Map.empty)) = sent (initial_client Map.empty)"
    by (simp add: click_book_def book_disabled_def yoga_def)
  ultimately show ?thesis
    using booking_request_only_when_open [of "\<lambda>s. Some 1705309200000" 1700000000000
        1700000001000 yoga "Inl NetworkError" "Inl NetworkError" "initial_client Map.empty"]
    by blast
qed

text \<open>
  Claim C10 as stated fails: the card of an event dated 1705309200000 is rendered at
  1700000000000, before that date, and its button is clicked at 1800000000000, after
  it. The event is past at the click, and the click sends the POST to \<open>/bookings\<close> for it.
\<close>

theorem stale_rendering_counterexample:
  "(1700000000000 :: int) \<le> 1800000000000
   \<and> date_lt ((\<lambda>s. Some 1705309200000) (date yoga)) (Some 1800000000000)
   \<and> sent (click_book (\<lambda>s. Some 1705309200000) 1700000000000 1800000000000 yoga
       (Inl NetworkError) (Inl NetworkError) (initial_client Map.empty))
     = [\<lparr>http_method = ''POST'', url = ''/bookings'', body = [(''event_id'', JNum 1)],
         authorization = None\<rparr>]"
  by (simp add: click_book_def book_disabled_def yoga_def initial_client_def sent_handleBooking
      attach_token_def getItem_def)

section \<open>Properties of the backend\<close>

lemma altered_differs:
  assumes "i < length xs" and "b \<noteq> xs ! i"
  shows "xs[i := b] \<noteq> xs"
proof
  assume "xs[i := b] = xs"
  then have "xs[i := b] ! i = xs ! i" by simp
  with assms show False by simp
qed

text \<open>
  Claim C6. A token that carries the signature of its fields under the secret, with one
  byte of that signature replaced by a different byte, is rejected as \<open>InvalidToken\<close> at
  any time: the signature is compared before the expiry is looked at, so the result is
  neither \<open>ExpiredToken\<close> nor a subject.
\<close>

theorem altered_signature_invalid:
  assumes "signature t = mac lib secret (signed_fields t)"
    and "i < length (signature t)" and "b \<noteq> signature t ! i"
  shows "verify lib secret now known (Some (t\<lparr>signature := (signature t)[i := b]\<rparr>)) = Inl InvalidToken"
proof -
  have same: "signed_fields (t\<lparr>signature := (signature t)[i := b]\<rparr>) = signed_fields t"
    by (simp add: signed_fields_def)
  have "(signature t)[i := b] \<noteq> mac lib secret (signed_fields t)"
    using altered_differs [OF assms(2,3)] assms(1) by simp
  with same show ?thesis by (simp add: verify_def)
qed

text \<open>At time 100 the token, expired since 10, is reported expired; altered, it is reported invalid.\<close>

theorem altered_signature_invalid_witness:
  "verify toy_library ''k'' 100 (\<lambda>i. True) (Some old_token) = Inl ExpiredToken
   \<and> verify toy_library ''k'' 100 (\<lambda>i. True)
        (Some (old_token\<lparr>signature := (signature old_token)[0 := 9]\<rparr>)) = Inl InvalidToken"
proof -
  have "verify toy_library ''k'' 100 (\<lambda>i. True) (Some old_token) = Inl ExpiredToken"
    by (simp add: verify_def toy_library_def old_token_def signed_fields_def)
  moreover have "verify toy_library ''k'' 100 (\<lambda>i. True)
        (Some (old_token\<lparr>signature := (signature old_token)[0 := 9]\<rparr>)) = Inl InvalidToken"
    by (rule altered_signature_invalid)
      (simp_all add: toy_library_def old_token_def signed_fields_def)
  ultimately show ?thesis by simp
qed

text \<open>The gate answers a failed verification with 401 and the kind of the failure.\<close>

lemma gate_kinds:
  "verify lib secret now known auth = Inl e \<Longrightarrow>
   snd (jwt_required lib secret now known auth h) = 401 \<and>
   dict_get (fst (jwt_required lib secret now known auth h)) ''error''
     \<in> {JStr ''missing_token'', JStr ''invalid_token'', JStr ''token_expired'',
        JStr ''unknown_subject''}"
  by (cases e)
    (simp_all add: jwt_required_def dict_get_def missing_token_callback_def
      invalid_token_callback_def expired_token_callback_def unknown_subject_callback_def)

text \<open>
  Claim C5. For a token with a valid signature that is not expired and whose subject
  does not resolve to an identity, verification gives \<open>UnknownSubject\<close> and the protected
  endpoint answers the authorization failure of the kind \<open>unknown_subject\<close>, status 401.
  The answer is the same for every wrapped handler: the handler does not run. For
  \<open>/api/jwt-test\<close> this is the case when the table has no row for the subject.
\<close>

theorem unknown_subject_short_circuits:
  assumes "signature t = mac lib secret (signed_fields t)"
    and "now \<le> expires_at t" and "\<not> known (subject t)"
  shows "verify lib secret now known (Some t) = Inl UnknownSubject
    \<and> jwt_required lib secret now known (Some t) handler =
        ([(''message'', JStr (str_error lib UnknownSubject)), (''error'', JStr ''unknown_subject'')], 401)
    \<and> (query_get (subject t) = Inr None \<longrightarrow>
        jwt_test_endpoint lib secret now query_get (Some t) =
          ([(''message'', JStr (str_error lib UnknownSubject)), (''error'', JStr ''unknown_subject'')], 401))"
proof -
  have unknown: "verify lib secret now k (Some t) = Inl UnknownSubject" if "\<not> k (subject t)" for k
    using assms(1,2) that by (simp add: verify_def)
  have gate: "jwt_required lib secret now k (Some t) h =
      ([(''message'', JStr (str_error lib UnknownSubject)), (''error'', JStr ''unknown_subject'')], 401)"
    if "\<not> k (subject t)" for k h
    using unknown that by (simp add: jwt_required_def unknown_subject_callback_def)
  have "jwt_test_endpoint lib secret now query_get (Some t) =
      ([(''message'', JStr (str_error lib UnknownSubject)), (''error'', JStr ''unknown_subject'')], 401)"
    if "query_get (subject t) = Inr None"
  proof -
    from that have "\<not> identity_exists query_get (subject t)"
      by (simp add: identity_exists_def)
    then show ?thesis by (simp add: jwt_test_endpoint_def gate)
  qed
  moreover from assms(3) have "verify lib secret now known (Some t) = Inl UnknownSubject"
    by (rule unknown)
  moreover from assms(3) have "jwt_required lib secret now known (Some t) handler =
      ([(''message'', JStr (str_error lib UnknownSubject)), (''error'', JStr ''unknown_subject'')], 401)"
    by (rule gate)
  ultimately show ?thesis by simp
qed

theorem unknown_subject_short_circuits_witness:
  "jwt_test_endpoint toy_library ''k'' 5 (\<lambda>i. Inr None) (Some old_token) =
     ([(''message'', JStr ''error''), (''error'', JStr ''unknown_subject'')], 401)
   \<and> jwt_test (\<lambda>i. Inr None) 7 =
     ([(''message'', JStr ''JWT token is valid''), (''user_id'', JNum 7),
       (''user'', JNull), (''token_valid'', JBool True)], 200)"
proof -
  have handler: "jwt_test (\<lambda>i. Inr None) 7 =
     ([(''message'', JStr ''JWT token is valid''), (''user_id'', JNum 7),
       (''user'', JNull), (''token_valid'', JBool True)], 200)"
    by (simp add: jwt_test_def)
  have "jwt_test_endpoint toy_library ''k'' 5 (\<lambda>i. Inr None) (Some old_token) =
     ([(''message'', JStr ''error''), (''error'', JStr ''unknown_subject'')], 401)"
    using unknown_subject_short_circuits [where t = old_token and lib = toy_library
        and secret = "''k''" and now = 5 and known = "\<lambda>i. False" and query_get = "\<lambda>i. Inr None"]
    by (simp add: toy_library_def old_token_def signed_fields_def)
  with handler show ?thesis by simp
qed

end
